theory Spec2Isabelle
  imports Complex_Main
begin

section \<open>Python values\<close>

text \<open>
  The module \<^verbatim>\<open>morpho_typing/types.py\<close> handles three kinds of Python values: the numbers
  of a range (\<^verbatim>\<open>list[int | float]\<close>), the items of a record
  (\<^verbatim>\<open>list[int | str | float]\<close>) and the exceptions it raises or lets through.

  An \<^verbatim>\<open>int\<close> is an unbounded integer. A \<^verbatim>\<open>float\<close> is modelled by the exact rational value
  of a finite double: Python compares an \<^verbatim>\<open>int\<close> with a \<^verbatim>\<open>float\<close> by value, so all comparisons
  of the module are comparisons of these values. The non-finite floats (\<^verbatim>\<open>nan\<close>, \<^verbatim>\<open>inf\<close>) and the
  rounding of a large \<^verbatim>\<open>int\<close> to the nearest double are outside this model.
\<close>

datatype pynum = IntV int | FloatV rat

fun num_val :: "pynum \<Rightarrow> rat" where
  "num_val (IntV i) = of_int i"
| "num_val (FloatV q) = q"

text \<open>Python's \<^verbatim>\<open>a >= b\<close> on two numbers.\<close>

definition py_ge :: "pynum \<Rightarrow> pynum \<Rightarrow> bool" where
  "py_ge a b = (num_val b \<le> num_val a)"

datatype pyval = PyInt int | PyFloat rat | PyStr string

section \<open>ArcType\<close>

datatype ArcType = ArcINT | ArcDOUBLE | ArcFLOAT | ArcSTRING

text \<open>The native Python types \<^verbatim>\<open>int\<close>, \<^verbatim>\<open>float\<close> and \<^verbatim>\<open>str\<close>.\<close>

datatype py_type = py_int | py_float | py_str

text \<open>The property \<^verbatim>\<open>ArcType.native_type\<close>: a lookup in a dictionary with all four keys.\<close>

fun native_type :: "ArcType \<Rightarrow> py_type" where
  "native_type ArcINT = py_int"
| "native_type ArcDOUBLE = py_float"
| "native_type ArcFLOAT = py_float"
| "native_type ArcSTRING = py_str"

section \<open>Field\<close>

record Field =
  field_name :: string
  field_type :: ArcType
  field_unit :: string
  field_range :: "pynum list"

text \<open>
  What the construction of a \<^verbatim>\<open>Field\<close> can fail with. pydantic reports all of them as a
  validation error of the field \<^verbatim>\<open>field_range\<close>:
  \<^item> \<open>too_short n\<close>: the list has \<open>n\<close> items, fewer than \<^verbatim>\<open>min_length=2\<close>;
  \<^item> \<open>too_long n\<close>: the list has \<open>n\<close> items, more than \<^verbatim>\<open>max_length=2\<close>;
  \<^item> \<open>value_error r lo hi\<close>: the \<^verbatim>\<open>ValueError\<close> of \<^verbatim>\<open>range_validator\<close>, whose message
    \<^verbatim>\<open>range {range} is not valid; {range[0]} is not lesser than {range[1]}\<close> prints the range
    \<open>r\<close> and its two bounds;
  \<^item> \<open>index_error\<close>: \<^verbatim>\<open>range[0]\<close> or \<^verbatim>\<open>range[1]\<close> read past the end of the list.
\<close>

datatype field_error =
    too_short nat
  | too_long nat
  | value_error "pynum list" pynum pynum
  | index_error

text \<open>
  \<^verbatim>\<open>Field.range_validator\<close>: raises when \<^verbatim>\<open>range[0] >= range[1]\<close>, returns the range otherwise.
\<close>

fun range_validator :: "pynum list \<Rightarrow> field_error + pynum list" where
  "range_validator (lo # hi # rest) =
     (if py_ge lo hi then Inl (value_error (lo # hi # rest) lo hi)
      else Inr (lo # hi # rest))"
| "range_validator _ = Inl index_error"

text \<open>
  The constructor \<^verbatim>\<open>Field(field_name=..., field_type=..., field_unit=..., field_range=...)\<close>.
  pydantic first validates \<^verbatim>\<open>field_range\<close> against its annotation, a list of numbers with
  \<^verbatim>\<open>min_length=2\<close> and \<^verbatim>\<open>max_length=2\<close>, and runs the field validator
  \<^verbatim>\<open>range_validator\<close> only on a list that passed.
\<close>

definition Field_new :: "string \<Rightarrow> ArcType \<Rightarrow> string \<Rightarrow> pynum list \<Rightarrow> field_error + Field" where
  "Field_new name ty unit rng =
     (if length rng < 2 then Inl (too_short (length rng))
      else if 2 < length rng then Inl (too_long (length rng))
      else (case range_validator rng of
              Inl e \<Rightarrow> Inl e
            | Inr r \<Rightarrow> Inr \<lparr>field_name = name, field_type = ty,
                           field_unit = unit, field_range = r\<rparr>))"

text \<open>
  The invariant a constructed \<^verbatim>\<open>Field\<close> has: its range is a list of two numbers, the first
  strictly below the second.
\<close>

definition valid_field :: "Field \<Rightarrow> bool" where
  "valid_field f =
     (case field_range f of
        [lo, hi] \<Rightarrow> num_val lo < num_val hi
      | _ \<Rightarrow> False)"

section \<open>ArcSchema\<close>

text \<open>The class \<^verbatim>\<open>ArcSchema\<close>; \<open>schema_fields\<close> is its attribute \<^verbatim>\<open>fields\<close>.\<close>

record ArcSchema =
  schema_fields :: "Field list"

definition valid_schema :: "ArcSchema \<Rightarrow> bool" where
  "valid_schema self = list_all valid_field (schema_fields self)"

text \<open>
  What \<^verbatim>\<open>validate_record\<close> can end with instead of returning:
  \<^item> \<open>LengthMismatch n\<close>: its own
    \<^verbatim>\<open>Exception(f"Length of record does not match number of parameters {n}")\<close>;
  \<^item> \<open>IndexError\<close>: \<^verbatim>\<open>field.field_range[0]\<close> or \<^verbatim>\<open>[1]\<close> read past the end of a range;
  \<^item> \<open>TypeError\<close>: Python's error for \<^verbatim>\<open>>=\<close> between a \<^verbatim>\<open>str\<close> and a number.
\<close>

datatype py_exception = LengthMismatch nat | IndexError | TypeError

text \<open>
  The class that \<^verbatim>\<open>pydantic.create_model(f"parameter_{field.field_name}", value=(ValueType, None))\<close>
  builds, with \<^verbatim>\<open>ValueType = Annotated[native_type, pydantic.Field(ge=..., le=...)]\<close>:
  its \<^verbatim>\<open>__name__\<close>, the type of its one field \<^verbatim>\<open>value\<close> and the two bounds.
\<close>

record ParameterModel =
  model_name :: string
  value_type :: py_type
  ge :: pynum
  le :: pynum

text \<open>The body of the loop of \<^verbatim>\<open>parameter_models\<close>, for one field.\<close>

definition create_model :: "Field \<Rightarrow> py_exception + ParameterModel" where
  "create_model field =
     (case field_range field of
        lo # hi # rest \<Rightarrow>
          Inr \<lparr>model_name = ''parameter_'' @ field_name field,
               value_type = native_type (field_type field),
               ge = lo, le = hi\<rparr>
      | _ \<Rightarrow> Inl IndexError)"

text \<open>
  The loop of \<^verbatim>\<open>parameter_models\<close>: the models are appended in the order of the fields, and
  an exception ends the loop.
\<close>

fun parameter_models_loop ::
  "Field list \<Rightarrow> ParameterModel list \<Rightarrow> py_exception + ParameterModel list" where
  "parameter_models_loop [] acc = Inr acc"
| "parameter_models_loop (field # rest) acc =
     (case create_model field of
        Inl e \<Rightarrow> Inl e
      | Inr m \<Rightarrow> parameter_models_loop rest (acc @ [m]))"

definition parameter_models :: "ArcSchema \<Rightarrow> py_exception + ParameterModel list" where
  "parameter_models self = parameter_models_loop (schema_fields self) []"

section \<open>Validation of one value by pydantic\<close>

text \<open>
  \<^verbatim>\<open>parameter_model.validate({"value": item})\<close> is pydantic's validation of \<^verbatim>\<open>item\<close> against
  \<^verbatim>\<open>Annotated[T, Field(ge=lo, le=hi)]\<close> in its default (lax) mode. The library is not part
  of the repository; the model follows its documented behaviour:
  \<^item> for \<^verbatim>\<open>int\<close>: an \<^verbatim>\<open>int\<close> is taken as it is, a \<^verbatim>\<open>float\<close> without fractional part is
    converted, a \<^verbatim>\<open>float\<close> with one is refused, a \<^verbatim>\<open>str\<close> is parsed;
  \<^item> for \<^verbatim>\<open>float\<close>: a \<^verbatim>\<open>float\<close> is taken as it is, an \<^verbatim>\<open>int\<close> is converted, a \<^verbatim>\<open>str\<close> is
    parsed;
  \<^item> for \<^verbatim>\<open>str\<close>: a \<^verbatim>\<open>str\<close> is taken as it is, a number is refused;
  \<^item> the converted value \<open>v\<close> is then checked against \<^verbatim>\<open>le\<close> and \<^verbatim>\<open>ge\<close>. For \<^verbatim>\<open>int\<close> and
    \<^verbatim>\<open>float\<close> the check compares the numeric values (\<open>v \<le> le\<close>, \<open>v \<ge> ge\<close>, both
    inclusive) and fails with a validation error. For \<^verbatim>\<open>str\<close> the
    constraint is not one of the string type: pydantic applies it as the Python
    comparison \<^verbatim>\<open>v >= ge\<close> after the string check, and Python raises \<^verbatim>\<open>TypeError\<close> for
    \<^verbatim>\<open>>=\<close> between a \<^verbatim>\<open>str\<close> and a number. pydantic turns a \<^verbatim>\<open>ValueError\<close> or an
    \<^verbatim>\<open>AssertionError\<close> of a validator into a \<^verbatim>\<open>ValidationError\<close>, not a \<^verbatim>\<open>TypeError\<close>.

  How pydantic reads a number in a \<^verbatim>\<open>str\<close> is left open: the two readers are parameters
  of the model, and every general theorem below holds for all readers.
\<close>

record str_readers =
  str_as_int :: "string \<Rightarrow> int option"
  str_as_float :: "string \<Rightarrow> rat option"

text \<open>
  The message \<^verbatim>\<open>e.errors()[0]['msg']\<close> of a \<^verbatim>\<open>ValidationError\<close>:
  \<^item> \<open>int_parsing\<close>: \<^verbatim>\<open>Input should be a valid integer, unable to parse string as an integer\<close>
  \<^item> \<open>int_from_float\<close>: \<^verbatim>\<open>Input should be a valid integer, got a number with a fractional part\<close>
  \<^item> \<open>float_parsing\<close>: \<^verbatim>\<open>Input should be a valid number, unable to parse string as a number\<close>
  \<^item> \<open>string_type\<close>: \<^verbatim>\<open>Input should be a valid string\<close>
  \<^item> \<open>less_than_equal b\<close>: \<^verbatim>\<open>Input should be less than or equal to {b}\<close>
  \<^item> \<open>greater_than_equal b\<close>: \<^verbatim>\<open>Input should be greater than or equal to {b}\<close>
\<close>

datatype validation_msg =
    int_parsing
  | int_from_float
  | float_parsing
  | string_type
  | less_than_equal pynum
  | greater_than_equal pynum

text \<open>What a validation ends with when it does not pass.\<close>

datatype validate_failure = ValidationError validation_msg | Raised py_exception

text \<open>
  Lax conversion of an item to the type \<^verbatim>\<open>int\<close> and to the type \<^verbatim>\<open>float\<close>; \<open>Inr\<close> holds the
  converted number.
\<close>

fun lax_int :: "str_readers \<Rightarrow> pyval \<Rightarrow> validation_msg + pynum" where
  "lax_int P (PyInt i) = Inr (IntV i)"
| "lax_int P (PyFloat q) =
     (if of_int \<lfloor>q\<rfloor> = q then Inr (IntV \<lfloor>q\<rfloor>) else Inl int_from_float)"
| "lax_int P (PyStr s) =
     (case str_as_int P s of None \<Rightarrow> Inl int_parsing | Some i \<Rightarrow> Inr (IntV i))"

fun lax_float :: "str_readers \<Rightarrow> pyval \<Rightarrow> validation_msg + pynum" where
  "lax_float P (PyInt i) = Inr (FloatV (of_int i))"
| "lax_float P (PyFloat q) = Inr (FloatV q)"
| "lax_float P (PyStr s) =
     (case str_as_float P s of None \<Rightarrow> Inl float_parsing | Some q \<Rightarrow> Inr (FloatV q))"

text \<open>A value converted to its native type: a number, or a text.\<close>

datatype native = Num pynum | Str string

fun lax_convert :: "str_readers \<Rightarrow> py_type \<Rightarrow> pyval \<Rightarrow> validation_msg + native" where
  "lax_convert P py_int item = map_sum id Num (lax_int P item)"
| "lax_convert P py_float item = map_sum id Num (lax_float P item)"
| "lax_convert P py_str (PyStr s) = Inr (Str s)"
| "lax_convert P py_str item = Inl string_type"

text \<open>
  The constraints \<^verbatim>\<open>le\<close> and \<^verbatim>\<open>ge\<close> on a converted value: numeric on a number, the
  comparison that raises \<^verbatim>\<open>TypeError\<close> on a text.
\<close>

fun check_bounds :: "ParameterModel \<Rightarrow> native \<Rightarrow> validate_failure + unit" where
  "check_bounds m (Num v) =
     (if num_val (le m) < num_val v then Inl (ValidationError (less_than_equal (le m)))
      else if num_val v < num_val (ge m) then Inl (ValidationError (greater_than_equal (ge m)))
      else Inr ())"
| "check_bounds m (Str s) = Inl (Raised TypeError)"

definition validate :: "str_readers \<Rightarrow> ParameterModel \<Rightarrow> pyval \<Rightarrow> validate_failure + unit" where
  "validate P m item =
     (case lax_convert P (value_type m) item of
        Inl msg \<Rightarrow> Inl (ValidationError msg)
      | Inr v \<Rightarrow> check_bounds m v)"

section \<open>validate\_record\<close>

text \<open>
  The loop of \<^verbatim>\<open>validate_record\<close> over \<^verbatim>\<open>zip(record, self.parameter_models)\<close>, with the list
  \<^verbatim>\<open>errors\<close> as its state. A \<^verbatim>\<open>ValidationError\<close> is caught and appended with the name of
  the model; any other exception leaves the loop and the function.
\<close>

fun validate_loop ::
  "str_readers \<Rightarrow> (pyval \<times> ParameterModel) list \<Rightarrow> (validation_msg \<times> string) list
     \<Rightarrow> py_exception + (validation_msg \<times> string) list" where
  "validate_loop P [] errors = Inr errors"
| "validate_loop P ((item, parameter_model) # rest) errors =
     (case validate P parameter_model item of
        Inr u \<Rightarrow> validate_loop P rest errors
      | Inl (ValidationError msg) \<Rightarrow>
          validate_loop P rest (errors @ [(msg, model_name parameter_model)])
      | Inl (Raised e) \<Rightarrow> Inl e)"

text \<open>
  \<^verbatim>\<open>validate_record\<close>. \<^verbatim>\<open>self.parameter_models\<close> is a property without a cache: it is
  computed at each of its occurrences, for the comparison of the lengths, for the message
  of the exception and for the loop.
\<close>

definition validate_record ::
  "str_readers \<Rightarrow> ArcSchema \<Rightarrow> pyval list
     \<Rightarrow> py_exception + (bool \<times> (validation_msg \<times> string) list)" where
  "validate_record P self record =
     (case parameter_models self of
        Inl e \<Rightarrow> Inl e
      | Inr models \<Rightarrow>
          if length record \<noteq> length models then
            (case parameter_models self of
               Inl e \<Rightarrow> Inl e
             | Inr models' \<Rightarrow> Inl (LengthMismatch (length models')))
          else
            (case parameter_models self of
               Inl e \<Rightarrow> Inl e
             | Inr models' \<Rightarrow>
                 (case validate_loop P (zip record models') [] of
                    Inl e \<Rightarrow> Inl e
                  | Inr errors \<Rightarrow>
                      if length errors > 0 then Inr (False, errors) else Inr (True, []))))"


section \<open>Notions used to state the properties\<close>

text \<open>The model that \<open>create_model\<close> builds for a field whose range has two bounds.\<close>

definition model_of :: "Field \<Rightarrow> ParameterModel" where
  "model_of f =
     \<lparr>model_name = ''parameter_'' @ field_name f,
      value_type = native_type (field_type f),
      ge = field_range f ! 0, le = field_range f ! 1\<rparr>"

text \<open>The entries one pass of the loop of \<open>validate_record\<close> appends: one or none.\<close>

definition entry :: "str_readers \<Rightarrow> pyval \<times> ParameterModel \<Rightarrow> (validation_msg \<times> string) list" where
  "entry P p =
     (case validate P (snd p) (fst p) of
        Inl (ValidationError msg) \<Rightarrow> [(msg, model_name (snd p))]
      | _ \<Rightarrow> [])"

text \<open>A position fails when its value does not pass the rule of its field.\<close>

definition fails :: "str_readers \<Rightarrow> pyval \<times> Field \<Rightarrow> bool" where
  "fails P p = (case validate P (model_of (snd p)) (fst p) of Inl e \<Rightarrow> True | Inr u \<Rightarrow> False)"

text \<open>A text in a field of type \<^verbatim>\<open>STRING\<close>.\<close>

fun text_in_string :: "pyval \<times> Field \<Rightarrow> bool" where
  "text_in_string (PyStr s, f) = (field_type f = ArcSTRING)"
| "text_in_string (item, f) = False"

section \<open>Concrete schemas and readers\<close>

text \<open>
  A pair of readers for the concrete examples: decimal digits after an optional minus
  sign. They stand for pydantic's readers on the strings of the examples only.
\<close>

fun read_digits :: "string \<Rightarrow> nat \<Rightarrow> nat option" where
  "read_digits [] n = Some n"
| "read_digits (c # cs) n =
     (if 48 \<le> (of_char c :: nat) \<and> (of_char c :: nat) \<le> 57
      then read_digits cs (10 * n + (of_char c - 48))
      else None)"

fun read_decimal :: "string \<Rightarrow> int option" where
  "read_decimal [] = None"
| "read_decimal (c # cs) =
     (if c = CHR ''-'' then (if cs = [] then None else map_option (\<lambda>n. - int n) (read_digits cs 0))
      else map_option int (read_digits (c # cs) 0))"

definition decimal_readers :: str_readers where
  "decimal_readers =
     \<lparr>str_as_int = read_decimal,
      str_as_float = (\<lambda>s. map_option of_int (read_decimal s))\<rparr>"

text \<open>The schema of the docstring of \<^verbatim>\<open>ArcSchema\<close>: \<^verbatim>\<open>STEP\<close> and \<^verbatim>\<open>HEIGHT\<close>.\<close>

definition step_field :: Field where
  "step_field =
     \<lparr>field_name = ''STEP'', field_type = ArcINT, field_unit = [],
      field_range = [IntV 0, IntV 10]\<rparr>"

definition height_field :: Field where
  "height_field =
     \<lparr>field_name = ''HEIGHT'', field_type = ArcDOUBLE, field_unit = ''m'',
      field_range = [IntV 0, IntV 100]\<rparr>"

definition step_height_schema :: ArcSchema where
  "step_height_schema = \<lparr>schema_fields = [step_field, height_field]\<rparr>"

text \<open>A field of type \<^verbatim>\<open>STRING\<close>, and the schemas that hold it.\<close>

definition label_field :: Field where
  "label_field =
     \<lparr>field_name = ''LABEL'', field_type = ArcSTRING, field_unit = [],
      field_range = [IntV 0, IntV 10]\<rparr>"

definition label_schema :: ArcSchema where
  "label_schema = \<lparr>schema_fields = [label_field]\<rparr>"

definition step_label_schema :: ArcSchema where
  "step_label_schema = \<lparr>schema_fields = [step_field, label_field]\<rparr>"


section \<open>The rules of a schema and the loop of validate\_record\<close>

text \<open>
  For a schema of constructed fields \<open>parameter_models\<close> returns one model per field, in
  the order of the fields.
\<close>

lemma parameter_models_loop_valid:
  "list_all valid_field fs \<Longrightarrow> parameter_models_loop fs acc = Inr (acc @ map model_of fs)"
proof (induction fs arbitrary: acc)
  case Nil
  then show ?case by simp
next
  case (Cons f fs)
  from Cons.prems have vf: "valid_field f" and rest: "list_all valid_field fs" by simp_all
  from vf obtain lo hi where r: "field_range f = [lo, hi]"
    by (auto simp: valid_field_def split: list.splits)
  have "create_model f = Inr (model_of f)"
    by (simp add: create_model_def model_of_def r)
  with Cons.IH [OF rest] show ?case by simp
qed

lemma parameter_models_valid:
  "valid_schema self \<Longrightarrow> parameter_models self = Inr (map model_of (schema_fields self))"
  by (simp add: parameter_models_def valid_schema_def parameter_models_loop_valid)

lemma entry_passes: "validate P m item = Inr u \<Longrightarrow> entry P (item, m) = []"
  by (simp add: entry_def)

lemma entry_caught:
  "validate P m item = Inl (ValidationError msg) \<Longrightarrow> entry P (item, m) = [(msg, model_name m)]"
  by (simp add: entry_def)

lemma validate_loop_Inr:
  "validate_loop P ps acc = Inr errs \<Longrightarrow> errs = acc @ concat (map (entry P) ps)"
proof (induction ps arbitrary: acc)
  case Nil
  then show ?case by simp
next
  case (Cons p ps)
  obtain item m where p: "p = (item, m)" by (cases p)
  show ?case
  proof (cases "validate P m item")
    case (Inr u)
    with Cons p show ?thesis by (simp add: entry_passes)
  next
    case (Inl e)
    show ?thesis
    proof (cases e)
      case (ValidationError msg)
      with Inl Cons.prems p have "validate_loop P ps (acc @ [(msg, model_name m)]) = Inr errs"
        by simp
      from Cons.IH [OF this] show ?thesis using Inl ValidationError p by (simp add: entry_caught)
    next
      case (Raised x)
      with Inl Cons.prems p show ?thesis by simp
    qed
  qed
qed

lemma validate_loop_Inr_no_raise:
  "validate_loop P ps acc = Inr errs \<Longrightarrow> p \<in> set ps \<Longrightarrow> validate P (snd p) (fst p) \<noteq> Inl (Raised e)"
proof (induction ps arbitrary: acc)
  case Nil
  then show ?case by simp
next
  case (Cons q ps)
  obtain item m where q: "q = (item, m)" by (cases q)
  show ?case
  proof (cases "validate P m item")
    case (Inr u)
    with Cons q show ?thesis by auto
  next
    case (Inl x)
    show ?thesis
    proof (cases x)
      case (ValidationError msg)
      with Inl Cons q show ?thesis by auto
    next
      case (Raised y)
      with Inl Cons.prems q show ?thesis by simp
    qed
  qed
qed

lemma validate_loop_no_raise:
  "(\<And>p e. p \<in> set ps \<Longrightarrow> validate P (snd p) (fst p) \<noteq> Inl (Raised e)) \<Longrightarrow>
   validate_loop P ps acc = Inr (acc @ concat (map (entry P) ps))"
proof (induction ps arbitrary: acc)
  case Nil
  then show ?case by simp
next
  case (Cons q ps)
  obtain item m where q: "q = (item, m)" by (cases q)
  have nr: "\<And>e. validate P m item \<noteq> Inl (Raised e)"
    using Cons.prems [of q] q by simp
  have rest: "\<And>acc'. validate_loop P ps acc' = Inr (acc' @ concat (map (entry P) ps))"
    using Cons.IH Cons.prems by simp
  show ?case
  proof (cases "validate P m item")
    case (Inr u)
    with rest q show ?thesis by (simp add: entry_passes)
  next
    case (Inl x)
    show ?thesis
    proof (cases x)
      case (ValidationError msg)
      with Inl rest q show ?thesis by (simp add: entry_caught)
    next
      case (Raised y)
      with Inl nr show ?thesis by simp
    qed
  qed
qed

lemma validate_Raised_iff:
  "validate P (model_of f) item = Inl (Raised e) \<longleftrightarrow> e = TypeError \<and> text_in_string (item, f)"
proof (cases "field_type f")
  case ArcINT
  then show ?thesis
    by (cases item) (auto simp: validate_def model_of_def split: sum.splits option.splits)
next
  case ArcDOUBLE
  then show ?thesis
    by (cases item) (auto simp: validate_def model_of_def split: sum.splits option.splits)
next
  case ArcFLOAT
  then show ?thesis
    by (cases item) (auto simp: validate_def model_of_def split: sum.splits option.splits)
next
  case ArcSTRING
  then show ?thesis
    by (cases item) (auto simp: validate_def model_of_def)
qed

lemma entry_model_of:
  "validate P (model_of f) item \<noteq> Inl (Raised TypeError) \<Longrightarrow>
   map snd (entry P (item, model_of f)) =
     (if fails P (item, f) then [''parameter_'' @ field_name f] else [])"
proof (cases "validate P (model_of f) item")
  case (Inr u)
  then show ?thesis by (simp add: entry_def fails_def)
next
  case (Inl x)
  assume nr: "validate P (model_of f) item \<noteq> Inl (Raised TypeError)"
  show ?thesis
  proof (cases x)
    case (ValidationError msg)
    with Inl show ?thesis by (simp add: entry_def fails_def model_of_def)
  next
    case (Raised y)
    with Inl validate_Raised_iff [of P f item y] nr show ?thesis by simp
  qed
qed

lemma entries_names:
  "length items = length fs \<Longrightarrow>
   (\<And>p. p \<in> set (zip items fs) \<Longrightarrow> validate P (model_of (snd p)) (fst p) \<noteq> Inl (Raised TypeError)) \<Longrightarrow>
   map snd (concat (map (entry P) (zip items (map model_of fs)))) =
     map (\<lambda>p. ''parameter_'' @ field_name (snd p)) (filter (fails P) (zip items fs))"
proof (induction items fs rule: list_induct2)
  case Nil
  then show ?case by simp
next
  case (Cons item items f fs)
  have h: "validate P (model_of f) item \<noteq> Inl (Raised TypeError)"
    using Cons.prems [of "(item, f)"] by simp
  have "map snd (concat (map (entry P) (zip items (map model_of fs)))) =
     map (\<lambda>p. ''parameter_'' @ field_name (snd p)) (filter (fails P) (zip items fs))"
    using Cons.IH Cons.prems by simp
  with entry_model_of [OF h] show ?case by simp
qed

lemma validate_record_returns:
  assumes v: "valid_schema self"
    and len: "length record = length (schema_fields self)"
    and nt: "\<And>p. p \<in> set (zip record (schema_fields self)) \<Longrightarrow> \<not> text_in_string p"
  shows "validate_record P self record =
           Inr (concat (map (entry P) (zip record (map model_of (schema_fields self)))) = [],
                concat (map (entry P) (zip record (map model_of (schema_fields self)))))"
proof -
  let ?ps = "zip record (map model_of (schema_fields self))"
  have nr: "\<And>p e. p \<in> set ?ps \<Longrightarrow> validate P (snd p) (fst p) \<noteq> Inl (Raised e)"
  proof -
    fix p e assume "p \<in> set ?ps"
    then obtain item f where p: "p = (item, model_of f)" and m: "(item, f) \<in> set (zip record (schema_fields self))"
      by (auto simp: zip_map2)
    from nt [OF m] validate_Raised_iff [of P f item e] p
    show "validate P (snd p) (fst p) \<noteq> Inl (Raised e)" by simp
  qed
  have "validate_loop P ?ps [] = Inr (concat (map (entry P) ?ps))"
    using validate_loop_no_raise [of ?ps P "[]"] nr by simp
  with parameter_models_valid [OF v] len show ?thesis
    by (simp add: validate_record_def)
qed

text \<open>
  When no \<^verbatim>\<open>STRING\<close> field holds a text, a record of the length of the schema gets a pair:
  the verdict is true exactly when the list is empty, and the list names the failing
  positions, one entry each, in the order of the schema.
\<close>

lemma validate_record_pair:
  assumes v: "valid_schema self"
    and len: "length record = length (schema_fields self)"
    and nt: "\<And>p. p \<in> set (zip record (schema_fields self)) \<Longrightarrow> \<not> text_in_string p"
  shows "\<exists>errors. validate_record P self record = Inr (errors = [], errors)
           \<and> map snd errors =
               map (\<lambda>p. ''parameter_'' @ field_name (snd p))
                 (filter (fails P) (zip record (schema_fields self)))"
proof -
  have nr: "validate P (model_of (snd p)) (fst p) \<noteq> Inl (Raised TypeError)"
    if "p \<in> set (zip record (schema_fields self))" for p
    using nt [OF that] validate_Raised_iff [of P "snd p" "fst p" TypeError] by simp
  from validate_record_returns [OF v len nt] entries_names [OF len nr]
  show ?thesis by blast
qed

text \<open>A schema of one field.\<close>

lemma single_field_record:
  assumes r: "field_range f = [lo, hi]"
  shows "validate_record P \<lparr>schema_fields = [f]\<rparr> [item] =
     (case validate P (model_of f) item of
        Inr u \<Rightarrow> Inr (True, [])
      | Inl (ValidationError msg) \<Rightarrow> Inr (False, [(msg, ''parameter_'' @ field_name f)])
      | Inl (Raised e) \<Rightarrow> Inl e)"
proof -
  have "create_model f = Inr (model_of f)"
    by (simp add: create_model_def model_of_def r)
  then show ?thesis
    by (simp add: validate_record_def parameter_models_def model_of_def
        split: sum.splits validate_failure.splits)
qed

lemma value_type_model_of: "value_type (model_of f) = native_type (field_type f)"
  by (simp add: model_of_def)


section \<open>Inclusive bounds of a numeric field\<close>




section \<open>The length of the record\<close>



section \<open>Construction of a field\<close>

text \<open>
  Claim C5. The construction of a field succeeds for every range \<open>[lo, hi]\<close> with
  \<open>lo < hi\<close>, and fails for every range with \<open>lo \<ge> hi\<close> with the error of
  \<open>range_validator\<close>, which reports the range and both bounds. A constructed field never
  has \<open>lo \<ge> hi\<close>: its range is two numbers, the first strictly below the second.
\<close>

theorem Field_new_range:
  "(num_val lo < num_val hi \<longrightarrow>
      Field_new name ty unit [lo, hi] =
        Inr \<lparr>field_name = name, field_type = ty, field_unit = unit, field_range = [lo, hi]\<rparr>)
   \<and> (num_val hi \<le> num_val lo \<longrightarrow>
      Field_new name ty unit [lo, hi] = Inl (value_error [lo, hi] lo hi))
   \<and> (\<forall>rng f. Field_new name ty unit rng = Inr f \<longrightarrow>
        (\<exists>a b. field_range f = [a, b] \<and> num_val a < num_val b))"
proof -
  have "\<exists>a b. field_range f = [a, b] \<and> num_val a < num_val b"
    if "Field_new name ty unit rng = Inr f" for rng f
  proof -
    from that have l: "length rng = 2"
      by (auto simp: Field_new_def split: if_splits)
    then obtain a b where rng: "rng = [a, b]"
      by (cases rng; cases "tl rng") auto
    with that show ?thesis
      by (auto simp: Field_new_def py_ge_def split: if_splits)
  qed
  then show ?thesis
    by (auto simp: Field_new_def py_ge_def)
qed

theorem Field_new_range_witness:
  "Field_new ''STEP'' ArcINT [] [IntV 0, IntV 10] = Inr step_field
   \<and> Field_new ''STEP'' ArcINT [] [IntV 10, IntV 10] = Inl (value_error [IntV 10, IntV 10] (IntV 10) (IntV 10))
   \<and> Field_new ''STEP'' ArcINT [] [IntV 10, IntV 5] = Inl (value_error [IntV 10, IntV 5] (IntV 10) (IntV 5))
   \<and> (\<exists>a b. field_range step_field = [a, b] \<and> num_val a < num_val b)"
proof -
  have a: "num_val (IntV 0) < num_val (IntV 10)" by simp
  have b: "num_val (IntV 10) \<le> num_val (IntV 10)" by simp
  have c: "num_val (IntV 5) \<le> num_val (IntV 10)" by simp
  have 1: "Field_new ''STEP'' ArcINT [] [IntV 0, IntV 10] = Inr step_field"
    using Field_new_range [of "IntV 0" "IntV 10" "''STEP''" ArcINT "[]"] a
    by (simp add: step_field_def)
  have 2: "Field_new ''STEP'' ArcINT [] [IntV 10, IntV 10] = Inl (value_error [IntV 10, IntV 10] (IntV 10) (IntV 10))"
    using Field_new_range [of "IntV 10" "IntV 10" "''STEP''" ArcINT "[]"] b by simp
  have 3: "Field_new ''STEP'' ArcINT [] [IntV 10, IntV 5] = Inl (value_error [IntV 10, IntV 5] (IntV 10) (IntV 5))"
    using Field_new_range [of "IntV 10" "IntV 5" "''STEP''" ArcINT "[]"] c by simp
  have 4: "\<exists>a b. field_range step_field = [a, b] \<and> num_val a < num_val b"
    using Field_new_range [of "IntV 0" "IntV 10" "''STEP''" ArcINT "[]"] 1 by blast
  from 1 2 3 4 show ?thesis by blast
qed

text \<open>
  Claim C9. The construction of a field fails for every range that does not have exactly
  two elements, with the error of the length constraint. The error of the comparison of
  the bounds, and a constructed field, only come from a range of two elements.
\<close>

theorem Field_new_two_bounds:
  "(length rng < 2 \<longrightarrow> Field_new name ty unit rng = Inl (too_short (length rng)))
   \<and> (2 < length rng \<longrightarrow> Field_new name ty unit rng = Inl (too_long (length rng)))
   \<and> (\<forall>r a b. Field_new name ty unit rng = Inl (value_error r a b) \<longrightarrow> length rng = 2)
   \<and> (\<forall>f. Field_new name ty unit rng = Inr f \<longrightarrow> length rng = 2)"
proof -
  have short: "length rng < 2 \<longrightarrow> Field_new name ty unit rng = Inl (too_short (length rng))"
    by (simp add: Field_new_def)
  have long: "2 < length rng \<longrightarrow> Field_new name ty unit rng = Inl (too_long (length rng))"
    by (simp add: Field_new_def)
  have checked: "length rng = 2"
    if "Field_new name ty unit rng = Inl (value_error r a b)" for r a b
    using that by (simp add: Field_new_def split: if_splits)
  have built: "length rng = 2" if "Field_new name ty unit rng = Inr f" for f
    using that by (simp add: Field_new_def split: if_splits)
  from short long checked built show ?thesis by blast
qed

theorem Field_new_two_bounds_witness:
  "Field_new ''STEP'' ArcINT [] [] = Inl (too_short 0)
   \<and> Field_new ''STEP'' ArcINT [] [IntV 0] = Inl (too_short 1)
   \<and> Field_new ''STEP'' ArcINT [] [IntV 10, IntV 5, IntV 0] = Inl (too_long 3)
   \<and> length [IntV 10, IntV 5] = 2"
proof -
  have 1: "Field_new ''STEP'' ArcINT [] [] = Inl (too_short 0)"
    using Field_new_two_bounds [of "[]" "''STEP''" ArcINT "[]"] by simp
  have 2: "Field_new ''STEP'' ArcINT [] [IntV 0] = Inl (too_short 1)"
    using Field_new_two_bounds [of "[IntV 0]" "''STEP''" ArcINT "[]"] by simp
  have 3: "Field_new ''STEP'' ArcINT [] [IntV 10, IntV 5, IntV 0] = Inl (too_long 3)"
    using Field_new_two_bounds [of "[IntV 10, IntV 5, IntV 0]" "''STEP''" ArcINT "[]"] by simp
  have e: "Field_new ''STEP'' ArcINT [] [IntV 10, IntV 5] = Inl (value_error [IntV 10, IntV 5] (IntV 10) (IntV 5))"
    by (simp add: Field_new_def py_ge_def)
  have 4: "length [IntV 10, IntV 5] = 2"
    using Field_new_two_bounds [of "[IntV 10, IntV 5]" "''STEP''" ArcINT "[]"] e by blast
  from 1 2 3 4 show ?thesis by blast
qed

section \<open>The entries of the error list\<close>

lemma valid_step_height_schema: "valid_schema step_height_schema"
  by (simp add: valid_schema_def valid_field_def step_height_schema_def step_field_def
      height_field_def)

lemma step_over_range:
  "validate_record P step_height_schema [PyInt 15, PyFloat 50] =
     Inr (False, [(less_than_equal (IntV 10), ''parameter_STEP'')])"
  by (simp add: validate_record_def parameter_models_def step_height_schema_def step_field_def
      height_field_def create_model_def validate_def)

text \<open>
  Claim C6, as amended. Each entry of the returned error list identifies its field by the
  name of the field's model, which is \<^verbatim>\<open>parameter_\<close> followed by the name of the field: the
  identifiers of the entries are these names for the failing positions, in the order of
  the schema. For the schema of \<^verbatim>\<open>STEP\<close> (\<^verbatim>\<open>INT\<close>, range \<open>(0, 10)\<close>) and \<^verbatim>\<open>HEIGHT\<close>
  (\<^verbatim>\<open>DOUBLE\<close>, range \<open>(0, 100)\<close>) the record \<open>[15, 50.0]\<close> gives one entry, with the
  identifier \<^verbatim>\<open>parameter_STEP\<close>.
\<close>

theorem entries_name_parameter_models:
  assumes v: "valid_schema self"
  shows "(\<forall>ok errors. validate_record P self record = Inr (ok, errors) \<longrightarrow>
            map snd errors =
              map (\<lambda>p. ''parameter_'' @ field_name (snd p))
                (filter (fails P) (zip record (schema_fields self))))
       \<and> validate_record P step_height_schema [PyInt 15, PyFloat 50] =
            Inr (False, [(less_than_equal (IntV 10), ''parameter_STEP'')])"
proof -
  let ?fs = "schema_fields self"
  let ?ps = "zip record (map model_of ?fs)"
  have "map snd errors =
          map (\<lambda>p. ''parameter_'' @ field_name (snd p)) (filter (fails P) (zip record ?fs))"
    if ret: "validate_record P self record = Inr (ok, errors)" for ok errors
  proof -
    from ret have len: "length record = length ?fs"
      by (auto simp: validate_record_def parameter_models_valid [OF v] split: if_splits)
    from ret len obtain errs where loop: "validate_loop P ?ps [] = Inr errs"
      and e: "errors = errs"
      by (auto simp: validate_record_def parameter_models_valid [OF v]
          split: sum.splits if_splits)
    from validate_loop_Inr [OF loop] have c: "errs = concat (map (entry P) ?ps)" by simp
    have nr: "validate P (model_of (snd p)) (fst p) \<noteq> Inl (Raised TypeError)"
      if "p \<in> set (zip record ?fs)" for p
    proof -
      obtain item f where p: "p = (item, f)" by (cases p)
      with that have "(item, model_of f) \<in> set ?ps"
        by (auto simp: zip_map2)
      from validate_loop_Inr_no_raise [OF loop this] p show ?thesis by simp
    qed
    from entries_names [OF len nr] c e show ?thesis by simp
  qed
  with step_over_range show ?thesis by blast
qed

theorem entries_name_parameter_models_witness:
  "valid_schema step_height_schema
   \<and> map snd [(less_than_equal (IntV 10), ''parameter_STEP'')] =
       map (\<lambda>p. ''parameter_'' @ field_name (snd p))
         (filter (fails decimal_readers) (zip [PyInt 15, PyFloat 50] (schema_fields step_height_schema)))"
  using entries_name_parameter_models [OF valid_step_height_schema, of decimal_readers "[PyInt 15, PyFloat 50]"]
    valid_step_height_schema
  by blast

text \<open>
  Claim C6 as it is written fails on its own example: the identifier of the entry is
  \<^verbatim>\<open>parameter_STEP\<close>, not \<^verbatim>\<open>STEP\<close>.
\<close>

theorem identifier_is_not_field_name_counterexample:
  "validate_record decimal_readers step_height_schema [PyInt 15, PyFloat 50] =
     Inr (False, [(less_than_equal (IntV 10), ''parameter_STEP'')])
   \<and> validate_record decimal_readers step_height_schema [PyInt 15, PyFloat 50] \<noteq>
     Inr (False, [(less_than_equal (IntV 10), ''STEP'')])"
  by (simp add: validate_record_def parameter_models_def step_height_schema_def step_field_def
      height_field_def create_model_def validate_def)

section \<open>Determinism\<close>



section \<open>Text for a numeric field\<close>



section \<open>Text for a field of type STRING\<close>

text \<open>
  A \<^verbatim>\<open>STRING\<close> field refuses a number with a validation error, and raises on every text.
  A value that cannot be converted adds its entry, and the loop goes on with the rest.
\<close>

lemma string_field_text_always_raises:
  assumes t: "field_type f = ArcSTRING" and r: "field_range f = [lo, hi]"
  shows "validate_record P \<lparr>schema_fields = [f]\<rparr> [PyStr s] = Inl TypeError"
  by (simp add: single_field_record [OF r] validate_def value_type_model_of t)

lemma string_field_number_refused:
  assumes t: "field_type f = ArcSTRING" and r: "field_range f = [lo, hi]"
    and n: "item = PyInt i \<or> item = PyFloat q"
  shows "validate_record P \<lparr>schema_fields = [f]\<rparr> [item] =
           Inr (False, [(string_type, ''parameter_'' @ field_name f)])"
  using n by (auto simp: single_field_record [OF r] validate_def value_type_model_of t)

lemma coercion_failure_entry:
  assumes c: "lax_convert P (value_type m) item = Inl msg"
  shows "validate_loop P ((item, m) # rest) errors =
           validate_loop P rest (errors @ [(msg, model_name m)])"
  by (simp add: validate_def c)

text \<open>
  Claim C4 says that the rule of a \<^verbatim>\<open>STRING\<close> field accepts every text, whatever the range
  of the field. The code does not: \<open>create_model\<close> gives the bounds of the range to the
  model of every field, and the comparison of a text with a bound raises \<^verbatim>\<open>TypeError\<close>,
  which \<open>validate_record\<close> does not catch. The field \<^verbatim>\<open>LABEL\<close> is constructed, and the
  record of the one text \<^verbatim>\<open>abc\<close> ends with that exception.
\<close>

theorem string_field_text_raises:
  "Field_new ''LABEL'' ArcSTRING [] [IntV 0, IntV 10] = Inr label_field
   \<and> validate_record decimal_readers label_schema [PyStr ''abc''] = Inl TypeError"
  by (simp add: Field_new_def py_ge_def label_field_def label_schema_def validate_record_def
      parameter_models_def create_model_def validate_def)

text \<open>
  Claim C3 says that for every record of matching length \<open>validate_record\<close> returns a
  pair of a verdict and the list of the failing positions. The code does not when a
  \<^verbatim>\<open>STRING\<close> field holds a text: for the schema of \<^verbatim>\<open>STEP\<close> and \<^verbatim>\<open>LABEL\<close> the record
  \<open>[5, abc]\<close> has the length of the schema and ends with \<^verbatim>\<open>TypeError\<close>.
\<close>

theorem matching_record_raises:
  "valid_schema step_label_schema
   \<and> length [PyInt 5, PyStr ''abc''] = length (schema_fields step_label_schema)
   \<and> validate_record decimal_readers step_label_schema [PyInt 5, PyStr ''abc''] = Inl TypeError"
  by (simp add: valid_schema_def valid_field_def step_label_schema_def step_field_def
      label_field_def validate_record_def parameter_models_def create_model_def validate_def)

text \<open>
  Claim C7 says that \<open>validate_record\<close> does not raise when a value cannot be converted,
  and returns every failing field. The code does not when a \<^verbatim>\<open>STRING\<close> field of the same
  record holds a text: in the record \<open>[x, abc]\<close> the text \<^verbatim>\<open>x\<close> cannot be converted to
  the \<^verbatim>\<open>int\<close> of \<^verbatim>\<open>STEP\<close>, and the call ends with \<^verbatim>\<open>TypeError\<close>.
\<close>

theorem coercion_failure_then_raise:
  "lax_convert decimal_readers (native_type (field_type step_field)) (PyStr ''x'') = Inl int_parsing
   \<and> validate_record decimal_readers step_label_schema [PyStr ''x'', PyStr ''abc''] = Inl TypeError"
  by (simp add: step_label_schema_def step_field_def label_field_def validate_record_def
      parameter_models_def create_model_def validate_def decimal_readers_def)

end
